theory Spec2Isabelle
  imports Complex_Main
begin

section \<open>Numeric values\<close>

text \<open>
  The notebook computes on NumPy arrays of double-precision numbers. A value is a finite
  real number or one of the three special values that NumPy produces instead of raising an
  exception, the two infinities and NaN. Division by zero yields \<open>PInf\<close>, \<open>NInf\<close> or \<open>NaN\<close>
  as it does in NumPy, never the \<open>0\<close> of HOL's total division.

  The program is modelled under two arithmetics. The operations below, \<open>fl_add\<close> to
  \<open>fl_sqrt\<close>, are exact on finite values: no rounding, no overflow, no underflow. The
  functions built on them are the program in exact arithmetic, the frame of every
  statement below that says so. The operations \<open>fl_add_rnd\<close> to \<open>fl_sqrt_rnd\<close> further down
  round every finite result; with \<open>round64\<close> as rounding they are the double-precision
  operations the program really runs, and the functions built on them are the program in
  double precision.

  The model has one zero. As a divisor it acts as \<open>+0.0\<close>: every divisor in this program is
  a row count, a square root or a sum of squares, none of which is ever \<open>-0.0\<close>.
\<close>

datatype npfloat = Fin real | PInf | NInf | NaN

fun fl_neg :: "npfloat \<Rightarrow> npfloat" where
  "fl_neg (Fin a) = Fin (- a)"
| "fl_neg PInf = NInf"
| "fl_neg NInf = PInf"
| "fl_neg NaN = NaN"

fun fl_add :: "npfloat \<Rightarrow> npfloat \<Rightarrow> npfloat" where
  "fl_add (Fin a) (Fin b) = Fin (a + b)"
| "fl_add NaN y = NaN"
| "fl_add x NaN = NaN"
| "fl_add PInf NInf = NaN"
| "fl_add NInf PInf = NaN"
| "fl_add PInf y = PInf"
| "fl_add x PInf = PInf"
| "fl_add NInf y = NInf"
| "fl_add x NInf = NInf"

definition fl_sub :: "npfloat \<Rightarrow> npfloat \<Rightarrow> npfloat" where
  "fl_sub x y = fl_add x (fl_neg y)"

fun fl_mul :: "npfloat \<Rightarrow> npfloat \<Rightarrow> npfloat" where
  "fl_mul (Fin a) (Fin b) = Fin (a * b)"
| "fl_mul NaN y = NaN"
| "fl_mul x NaN = NaN"
| "fl_mul PInf (Fin b) = (if b = 0 then NaN else if 0 < b then PInf else NInf)"
| "fl_mul NInf (Fin b) = (if b = 0 then NaN else if 0 < b then NInf else PInf)"
| "fl_mul (Fin a) PInf = (if a = 0 then NaN else if 0 < a then PInf else NInf)"
| "fl_mul (Fin a) NInf = (if a = 0 then NaN else if 0 < a then NInf else PInf)"
| "fl_mul PInf PInf = PInf"
| "fl_mul NInf NInf = PInf"
| "fl_mul PInf NInf = NInf"
| "fl_mul NInf PInf = NInf"

fun fl_div :: "npfloat \<Rightarrow> npfloat \<Rightarrow> npfloat" where
  "fl_div (Fin a) (Fin b) =
     (if b = 0 then (if a = 0 then NaN else if 0 < a then PInf else NInf)
      else Fin (a / b))"
| "fl_div NaN y = NaN"
| "fl_div x NaN = NaN"
| "fl_div (Fin a) PInf = Fin 0"
| "fl_div (Fin a) NInf = Fin 0"
| "fl_div PInf (Fin b) = (if 0 \<le> b then PInf else NInf)"
| "fl_div NInf (Fin b) = (if 0 \<le> b then NInf else PInf)"
| "fl_div PInf PInf = NaN"
| "fl_div PInf NInf = NaN"
| "fl_div NInf PInf = NaN"
| "fl_div NInf NInf = NaN"

fun fl_abs :: "npfloat \<Rightarrow> npfloat" where
  "fl_abs (Fin a) = Fin \<bar>a\<bar>"
| "fl_abs PInf = PInf"
| "fl_abs NInf = PInf"
| "fl_abs NaN = NaN"

fun fl_sqrt :: "npfloat \<Rightarrow> npfloat" where
  "fl_sqrt (Fin a) = (if a < 0 then NaN else Fin (sqrt a))"
| "fl_sqrt PInf = PInf"
| "fl_sqrt NInf = NaN"
| "fl_sqrt NaN = NaN"

text \<open>\<open>x ** 2\<close> on an array squares every element.\<close>

definition fl_sq :: "npfloat \<Rightarrow> npfloat" where
  "fl_sq x = fl_mul x x"

section \<open>Arrays\<close>

text \<open>
  A one-dimensional array is a list of values, a two-dimensional array the list of its
  rows. An array of NumPy is rectangular; \<open>is_matrix\<close> says so of a list of rows. The list
  of rows cannot tell the shapes \<open>(0, C)\<close> apart: the empty list stands for the array of
  shape \<open>(0, 0)\<close>, and so does the transpose of a matrix without columns. The theorems
  below that depend on it are about matrices with at least one row and one column.
\<close>

type_synonym vec = "npfloat list"
type_synonym mat = "npfloat list list"

definition ncols :: "'a list list \<Rightarrow> nat" where
  "ncols X = (case X of [] \<Rightarrow> 0 | r # _ \<Rightarrow> length r)"

definition is_matrix :: "'a list list \<Rightarrow> bool" where
  "is_matrix X = (\<forall>r \<in> set X. length r = ncols X)"

definition column :: "'a list list \<Rightarrow> nat \<Rightarrow> 'a list" where
  "column X j = map (\<lambda>r. r ! j) X"

definition columns :: "'a list list \<Rightarrow> 'a list list" where
  "columns X = map (column X) [0..<ncols X]"

text \<open>
  The operations of NumPy that check shapes raise \<open>ValueError\<close> when the shapes do not fit;
  \<open>np.linalg.inv\<close> raises \<open>LinAlgError\<close> on a singular matrix. These are the only exceptions
  the notebook's functions can raise on arrays of numbers.
\<close>

datatype error = ValueError | LinAlgError

definition ebind :: "error + 'a \<Rightarrow> ('a \<Rightarrow> error + 'b) \<Rightarrow> error + 'b" where
  "ebind m f = (case m of Inl e \<Rightarrow> Inl e | Inr x \<Rightarrow> f x)"

text \<open>\<open>np.sum\<close>, \<open>np.mean\<close> and \<open>np.std\<close> of a one-dimensional array. The mean of an empty
  array is \<open>0 / 0\<close>, that is NaN. \<open>np.std\<close> is the square root of the mean of the squared
  absolute deviations from the mean (denominator \<open>N\<close>).\<close>

definition np_sum :: "vec \<Rightarrow> npfloat" where
  "np_sum v = foldl fl_add (Fin 0) v"

definition np_mean :: "vec \<Rightarrow> npfloat" where
  "np_mean v = fl_div (np_sum v) (Fin (real (length v)))"

definition np_std :: "vec \<Rightarrow> npfloat" where
  "np_std v = fl_sqrt (np_mean (map (\<lambda>x. fl_sq (fl_abs (fl_sub x (np_mean v)))) v))"

text \<open>With \<open>axis=0\<close> the reduction runs down every column.\<close>

definition np_mean0 :: "mat \<Rightarrow> vec" where
  "np_mean0 X = map np_mean (columns X)"

definition np_std0 :: "mat \<Rightarrow> vec" where
  "np_std0 X = map np_std (columns X)"

text \<open>
  An elementwise operation between a two-dimensional array of shape \<open>(R, m)\<close> and a
  one-dimensional array of shape \<open>(n,)\<close> broadcasts: the shapes fit when \<open>m = n\<close>, or when
  one of the two is \<open>1\<close>, and the axis of length \<open>1\<close> is then stretched to the other length.
  Otherwise NumPy raises \<open>ValueError\<close>.
\<close>

definition np_bc :: "(npfloat \<Rightarrow> npfloat \<Rightarrow> npfloat) \<Rightarrow> mat \<Rightarrow> vec \<Rightarrow> error + mat" where
  "np_bc f A v =
     (if ncols A = length v then Inr (map (\<lambda>r. map2 f r v) A)
      else if ncols A = 1 then Inr (map (\<lambda>r. map (f (r ! 0)) v) A)
      else if length v = 1 then Inr (map (\<lambda>r. map (\<lambda>x. f x (v ! 0)) r) A)
      else Inl ValueError)"

text \<open>The same between two one-dimensional arrays.\<close>

definition np_bc1 :: "(npfloat \<Rightarrow> npfloat \<Rightarrow> npfloat) \<Rightarrow> vec \<Rightarrow> vec \<Rightarrow> error + vec" where
  "np_bc1 f u v =
     (if length u = length v then Inr (map2 f u v)
      else if length u = 1 then Inr (map (f (u ! 0)) v)
      else if length v = 1 then Inr (map (\<lambda>x. f x (v ! 0)) u)
      else Inl ValueError)"

text \<open>\<open>np.ones(n)\<close>, and \<open>np.c_[col, M]\<close>: the one-dimensional \<open>col\<close> becomes the first column
  of the result, and must have as many entries as \<open>M\<close> has rows.\<close>

definition np_ones :: "nat \<Rightarrow> vec" where
  "np_ones n = replicate n (Fin 1)"

definition np_c :: "vec \<Rightarrow> mat \<Rightarrow> error + mat" where
  "np_c col M = (if length col = length M then Inr (map2 (#) col M) else Inl ValueError)"

text \<open>\<open>X.T\<close>, and the operator \<open>@\<close> between two matrices and between a matrix and a vector.\<close>

definition np_T :: "mat \<Rightarrow> mat" where
  "np_T X = columns X"

definition np_dot :: "vec \<Rightarrow> vec \<Rightarrow> npfloat" where
  "np_dot u v = np_sum (map2 fl_mul u v)"

definition np_matmul :: "mat \<Rightarrow> mat \<Rightarrow> error + mat" where
  "np_matmul A B =
     (if ncols A = length B then Inr (map (\<lambda>r. map (\<lambda>c. np_dot r c) (columns B)) A)
      else Inl ValueError)"

definition np_matvec :: "mat \<Rightarrow> vec \<Rightarrow> error + vec" where
  "np_matvec A v =
     (if ncols A = length v then Inr (map (\<lambda>r. np_dot r v) A) else Inl ValueError)"

section \<open>The notebook's functions\<close>

text \<open>
  \<^verbatim>\<open>
  def normalize(X):
      mean = np.mean(X, axis=0)
      std = np.std(X, axis=0)
      return (X - mean) / std, mean, std
  \<close>
\<close>

definition normalize :: "mat \<Rightarrow> error + (mat \<times> vec \<times> vec)" where
  "normalize X =
     (let mean = np_mean0 X;
          std = np_std0 X
      in ebind (np_bc fl_sub X mean) (\<lambda>D.
         ebind (np_bc fl_div D std) (\<lambda>Q.
         Inr (Q, mean, std))))"

text \<open>
  \<^verbatim>\<open>
  def add_bias(X):
      return np.c_[np.ones(X.shape[0]), X]
  \<close>
\<close>

definition add_bias :: "mat \<Rightarrow> error + mat" where
  "add_bias X = np_c (np_ones (length X)) X"

text \<open>
  \<^verbatim>\<open>
  def normal_equation(X, y):
      return np.linalg.inv(X.T @ X) @ X.T @ y
  \<close>
  The operator \<open>@\<close> associates to the left. \<open>np.linalg.inv\<close> is NumPy's, not the
  notebook's: the model takes it as the parameter \<open>linalg_inv\<close>.
\<close>

definition normal_equation :: "(mat \<Rightarrow> error + mat) \<Rightarrow> mat \<Rightarrow> vec \<Rightarrow> error + vec" where
  "normal_equation linalg_inv X y =
     ebind (np_matmul (np_T X) X) (\<lambda>G.
     ebind (linalg_inv G) (\<lambda>Gi.
     ebind (np_matmul Gi (np_T X)) (\<lambda>P.
     np_matvec P y)))"

text \<open>
  \<^verbatim>\<open>
  def mean_squared_error(y_true, y_pred):
      return np.mean((y_true - y_pred) ** 2)

  def r2_score(y_true, y_pred):
      ss_res = np.sum((y_true - y_pred) ** 2)
      ss_tot = np.sum((y_true - np.mean(y_true)) ** 2)
      return 1 - (ss_res / ss_tot)
  \<close>
\<close>

definition mean_squared_error :: "vec \<Rightarrow> vec \<Rightarrow> error + npfloat" where
  "mean_squared_error y_true y_pred =
     ebind (np_bc1 fl_sub y_true y_pred) (\<lambda>d. Inr (np_mean (map fl_sq d)))"

definition r2_score :: "vec \<Rightarrow> vec \<Rightarrow> error + npfloat" where
  "r2_score y_true y_pred =
     ebind (np_bc1 fl_sub y_true y_pred) (\<lambda>d.
       let ss_res = np_sum (map fl_sq d);
           ss_tot = np_sum (map (\<lambda>x. fl_sq (fl_sub x (np_mean y_true))) y_true)
       in Inr (fl_sub (Fin 1) (fl_div ss_res ss_tot)))"

text \<open>
  The prediction cell, as a function of the new rows and of the statistics and
  coefficients of the training run:
  \<^verbatim>\<open>
  new_house_norm = (new_house - mean) / std
  new_house_bias = add_bias(new_house_norm)
  predicted_price = new_house_bias @ theta
  \<close>
\<close>

definition predicted_price :: "mat \<Rightarrow> vec \<Rightarrow> vec \<Rightarrow> vec \<Rightarrow> error + vec" where
  "predicted_price new_house mean std theta =
     ebind (np_bc fl_sub new_house mean) (\<lambda>D.
     ebind (np_bc fl_div D std) (\<lambda>new_house_norm.
     ebind (add_bias new_house_norm) (\<lambda>new_house_bias.
     np_matvec new_house_bias theta)))"

section \<open>Double-precision arithmetic\<close>

text \<open>
  A double has a significand of 53 bits and a binary exponent from \<open>-1022\<close> to \<open>1023\<close>.
  \<open>round64\<close> rounds a real number to the nearest double, a tie going to the even
  significand: \<open>e\<close> is the exponent of \<open>x\<close> (at least \<open>-1022\<close>, below which doubles are
  subnormal and equally spaced), \<open>u\<close> the spacing of the doubles at that exponent, and the
  result is a whole number of \<open>u\<close>. A result of magnitude \<open>2 ^ 1024\<close> or more overflows to an
  infinity, a result below half of the smallest subnormal underflows to zero.
\<close>

definition round_half_even :: "real \<Rightarrow> int" where
  "round_half_even q =
     (let f = \<lfloor>q\<rfloor>; d = q - of_int f
      in if d < 1 / 2 then f else if 1 / 2 < d then f + 1 else if even f then f else f + 1)"

definition round64 :: "real \<Rightarrow> npfloat" where
  "round64 x =
     (if x = 0 then Fin 0
      else let e = max \<lfloor>log 2 \<bar>x\<bar>\<rfloor> (- 1022);
               u = 2 powi (e - 52);
               r = of_int (round_half_even (\<bar>x\<bar> / u)) * u
           in if 2 ^ 1024 \<le> r then (if 0 < x then PInf else NInf) else Fin (sgn x * r))"

text \<open>
  The arithmetic operations with rounding \<open>rnd\<close>: a finite result is rounded, and a special
  operand or a division by zero is handled as in the exact operations. \<open>rnd = round64\<close> is
  double precision; \<open>rnd = Fin\<close> gives the exact operations back.
\<close>

fun fl_add_rnd :: "(real \<Rightarrow> npfloat) \<Rightarrow> npfloat \<Rightarrow> npfloat \<Rightarrow> npfloat" where
  "fl_add_rnd rnd (Fin a) (Fin b) = rnd (a + b)"
| "fl_add_rnd rnd x y = fl_add x y"

definition fl_sub_rnd :: "(real \<Rightarrow> npfloat) \<Rightarrow> npfloat \<Rightarrow> npfloat \<Rightarrow> npfloat" where
  "fl_sub_rnd rnd x y = fl_add_rnd rnd x (fl_neg y)"

fun fl_mul_rnd :: "(real \<Rightarrow> npfloat) \<Rightarrow> npfloat \<Rightarrow> npfloat \<Rightarrow> npfloat" where
  "fl_mul_rnd rnd (Fin a) (Fin b) = rnd (a * b)"
| "fl_mul_rnd rnd x y = fl_mul x y"

fun fl_div_rnd :: "(real \<Rightarrow> npfloat) \<Rightarrow> npfloat \<Rightarrow> npfloat \<Rightarrow> npfloat" where
  "fl_div_rnd rnd (Fin a) (Fin b) = (if b = 0 then fl_div (Fin a) (Fin b) else rnd (a / b))"
| "fl_div_rnd rnd x y = fl_div x y"

fun fl_sqrt_rnd :: "(real \<Rightarrow> npfloat) \<Rightarrow> npfloat \<Rightarrow> npfloat" where
  "fl_sqrt_rnd rnd (Fin a) = (if a < 0 then NaN else rnd (sqrt a))"
| "fl_sqrt_rnd rnd x = fl_sqrt x"

definition fl_sq_rnd :: "(real \<Rightarrow> npfloat) \<Rightarrow> npfloat \<Rightarrow> npfloat" where
  "fl_sq_rnd rnd x = fl_mul_rnd rnd x x"

text \<open>
  The reductions with rounding. \<open>np_sum_rnd\<close> adds from the first entry to the last. NumPy
  adds a long one-dimensional array in blocks, which can round differently. Every
  double-precision evaluation below adds two numbers at most, where the order cannot
  matter.
\<close>

definition np_sum_rnd :: "(real \<Rightarrow> npfloat) \<Rightarrow> vec \<Rightarrow> npfloat" where
  "np_sum_rnd rnd v = foldl (fl_add_rnd rnd) (Fin 0) v"

definition np_mean_rnd :: "(real \<Rightarrow> npfloat) \<Rightarrow> vec \<Rightarrow> npfloat" where
  "np_mean_rnd rnd v = fl_div_rnd rnd (np_sum_rnd rnd v) (Fin (real (length v)))"

definition np_std_rnd :: "(real \<Rightarrow> npfloat) \<Rightarrow> vec \<Rightarrow> npfloat" where
  "np_std_rnd rnd v =
     fl_sqrt_rnd rnd (np_mean_rnd rnd
       (map (\<lambda>x. fl_sq_rnd rnd (fl_abs (fl_sub_rnd rnd x (np_mean_rnd rnd v)))) v))"

definition np_mean0_rnd :: "(real \<Rightarrow> npfloat) \<Rightarrow> mat \<Rightarrow> vec" where
  "np_mean0_rnd rnd X = map (np_mean_rnd rnd) (columns X)"

definition np_std0_rnd :: "(real \<Rightarrow> npfloat) \<Rightarrow> mat \<Rightarrow> vec" where
  "np_std0_rnd rnd X = map (np_std_rnd rnd) (columns X)"

text \<open>The notebook's functions with rounding, operation for operation as above.\<close>

definition normalize_rnd :: "(real \<Rightarrow> npfloat) \<Rightarrow> mat \<Rightarrow> error + (mat \<times> vec \<times> vec)" where
  "normalize_rnd rnd X =
     (let mean = np_mean0_rnd rnd X;
          std = np_std0_rnd rnd X
      in ebind (np_bc (fl_sub_rnd rnd) X mean) (\<lambda>D.
         ebind (np_bc (fl_div_rnd rnd) D std) (\<lambda>Q.
         Inr (Q, mean, std))))"

definition mean_squared_error_rnd :: "(real \<Rightarrow> npfloat) \<Rightarrow> vec \<Rightarrow> vec \<Rightarrow> error + npfloat" where
  "mean_squared_error_rnd rnd y_true y_pred =
     ebind (np_bc1 (fl_sub_rnd rnd) y_true y_pred) (\<lambda>d.
       Inr (np_mean_rnd rnd (map (fl_sq_rnd rnd) d)))"

definition r2_score_rnd :: "(real \<Rightarrow> npfloat) \<Rightarrow> vec \<Rightarrow> vec \<Rightarrow> error + npfloat" where
  "r2_score_rnd rnd y_true y_pred =
     ebind (np_bc1 (fl_sub_rnd rnd) y_true y_pred) (\<lambda>d.
       let ss_res = np_sum_rnd rnd (map (fl_sq_rnd rnd) d);
           ss_tot = np_sum_rnd rnd
             (map (\<lambda>x. fl_sq_rnd rnd (fl_sub_rnd rnd x (np_mean_rnd rnd y_true))) y_true)
       in Inr (fl_sub_rnd rnd (Fin 1) (fl_div_rnd rnd ss_res ss_tot)))"

text \<open>
  The operator \<open>@\<close> with rounding: every product and every partial sum of a dot product is
  rounded. (A library that fuses a product and a sum rounds them once; where all products
  are exact, as in the evaluation below, the two agree.)
\<close>

definition np_dot_rnd :: "(real \<Rightarrow> npfloat) \<Rightarrow> vec \<Rightarrow> vec \<Rightarrow> npfloat" where
  "np_dot_rnd rnd u v = np_sum_rnd rnd (map2 (fl_mul_rnd rnd) u v)"

definition np_matmul_rnd :: "(real \<Rightarrow> npfloat) \<Rightarrow> mat \<Rightarrow> mat \<Rightarrow> error + mat" where
  "np_matmul_rnd rnd A B =
     (if ncols A = length B then Inr (map (\<lambda>r. map (\<lambda>c. np_dot_rnd rnd r c) (columns B)) A)
      else Inl ValueError)"

definition np_matvec_rnd :: "(real \<Rightarrow> npfloat) \<Rightarrow> mat \<Rightarrow> vec \<Rightarrow> error + vec" where
  "np_matvec_rnd rnd A v =
     (if ncols A = length v then Inr (map (\<lambda>r. np_dot_rnd rnd r v) A) else Inl ValueError)"

definition normal_equation_rnd ::
  "(real \<Rightarrow> npfloat) \<Rightarrow> (mat \<Rightarrow> error + mat) \<Rightarrow> mat \<Rightarrow> vec \<Rightarrow> error + vec" where
  "normal_equation_rnd rnd linalg_inv X y =
     ebind (np_matmul_rnd rnd (np_T X) X) (\<lambda>G.
     ebind (linalg_inv G) (\<lambda>Gi.
     ebind (np_matmul_rnd rnd Gi (np_T X)) (\<lambda>P.
     np_matvec_rnd rnd P y)))"

section \<open>Reference notions\<close>

text \<open>
  The statistics the specification names, over real numbers: the arithmetic mean of a
  list of numbers and its population standard deviation, whose denominator is the number
  \<open>N\<close> of entries, not \<open>N - 1\<close>. The functions of the notebook are compared with them.
  They are real-number notions: no rounding enters them.
  \<open>embed\<close> makes a matrix of finite values from a matrix of real numbers.
\<close>

definition arith_mean :: "real list \<Rightarrow> real" where
  "arith_mean xs = sum_list xs / real (length xs)"

definition pop_std :: "real list \<Rightarrow> real" where
  "pop_std xs = sqrt (sum_list (map (\<lambda>x. (x - arith_mean xs)\<^sup>2) xs) / real (length xs))"

definition embed :: "real list list \<Rightarrow> mat" where
  "embed X = map (map Fin) X"

text \<open>The specification's rescaling \<open>(X - mean) / std\<close> over real numbers, column by column.\<close>

definition standardise :: "real list list \<Rightarrow> real list list" where
  "standardise X =
     map (\<lambda>r. map2 (/) (map2 (-) r (map arith_mean (columns X))) (map pop_std (columns X))) X"







section \<open>The bias column\<close>

lemma add_bias_eq: "add_bias X = Inr (map (\<lambda>r. Fin 1 # r) X)"
proof -
  have "map2 (#) (replicate (length X) (Fin 1)) X = map (\<lambda>r. Fin 1 # r) X"
    by (induction X) simp_all
  then show ?thesis
    by (simp add: add_bias_def np_c_def np_ones_def)
qed

text \<open>
  Claim C4. For a matrix \<open>X\<close> of \<open>R\<close> rows and \<open>C\<close> columns, \<open>add_bias X\<close> returns a matrix
  of \<open>R\<close> rows and \<open>C + 1\<close> columns; its column 0 is \<open>1.0\<close> in every row, and its columns
  \<open>1..C\<close> are the columns of \<open>X\<close>, in the same order and with the rows in the same order.
\<close>

theorem add_bias_shape_and_columns:
  assumes "length X = R" and "\<forall>r \<in> set X. length r = C"
  shows "\<exists>B. add_bias X = Inr B \<and> length B = R
           \<and> (\<forall>i<R. length (B ! i) = C + 1 \<and> B ! i ! 0 = Fin 1
                  \<and> (\<forall>j<C. B ! i ! (j + 1) = X ! i ! j))"
  using assms by (simp add: add_bias_eq)

theorem add_bias_shape_and_columns_witness:
  "length [[Fin 2, Fin 3], [Fin 4, Fin 5]] = (2::nat)
   \<and> is_matrix [[Fin 2, Fin 3], [Fin 4, Fin 5]]
   \<and> add_bias [[Fin 2, Fin 3], [Fin 4, Fin 5]]
       = Inr [[Fin 1, Fin 2, Fin 3], [Fin 1, Fin 4, Fin 5]]"
  using add_bias_shape_and_columns [of "[[Fin 2, Fin 3], [Fin 4, Fin 5]]" 2 2]
  by (simp add: add_bias_eq is_matrix_def ncols_def)

section \<open>Finite values compute as real numbers\<close>

lemma foldl_fl_add_Fin: "foldl fl_add (Fin a) (map Fin xs) = Fin (a + sum_list xs)"
  by (induction xs arbitrary: a) (simp_all add: add.assoc)

lemma np_sum_Fin: "np_sum (map Fin xs) = Fin (sum_list xs)"
  by (simp add: np_sum_def foldl_fl_add_Fin)

lemma np_mean_Fin: "xs \<noteq> [] \<Longrightarrow> np_mean (map Fin xs) = Fin (arith_mean xs)"
  by (simp add: np_mean_def np_sum_Fin arith_mean_def)

lemma sq_dev_Fin:
  "map (\<lambda>x. fl_sq (fl_abs (fl_sub x (Fin m)))) (map Fin xs) = map Fin (map (\<lambda>x. (x - m)\<^sup>2) xs)"
  by (simp add: fl_sq_def fl_sub_def power2_eq_square)

lemma np_std_Fin: "xs \<noteq> [] \<Longrightarrow> np_std (map Fin xs) = Fin (pop_std xs)"
proof -
  assume ne: "xs \<noteq> []"
  let ?d = "map (\<lambda>x. (x - arith_mean xs)\<^sup>2) xs"
  have nn: "0 \<le> arith_mean ?d"
    unfolding arith_mean_def by (intro divide_nonneg_nonneg sum_list_nonneg) auto
  have "np_std (map Fin xs) = fl_sqrt (np_mean (map Fin ?d))"
    unfolding np_std_def np_mean_Fin [OF ne] sq_dev_Fin ..
  also have "np_mean (map Fin ?d) = Fin (arith_mean ?d)"
    by (rule np_mean_Fin) (simp add: ne)
  also have "fl_sqrt (Fin (arith_mean ?d)) = Fin (pop_std xs)"
    using nn by (simp add: pop_std_def arith_mean_def)
  finally show ?thesis .
qed

section \<open>Rounding to double precision\<close>

lemma round_half_even_of_int: "round_half_even (of_int n) = n"
  by (simp add: round_half_even_def)

lemma floor_log2:
  assumes "0 < x" and "2 powi k \<le> x" and "x < 2 powi (k + 1)"
  shows "\<lfloor>log 2 x\<rfloor> = k"
proof -
  have "(2::real) powr real_of_int k = 2 powi k"
    and "(2::real) powr real_of_int (k + 1) = 2 powi (k + 1)"
    by (rule powr_real_of_int'; simp)+
  then show ?thesis
    using assms floor_log_eq_powr_iff [of x 2 k] by (simp del: of_int_add)
qed

lemma round64_0: "round64 0 = Fin 0"
  by (simp add: round64_def)

lemma round64_minus: "round64 (- x) = fl_neg (round64 x)"
  by (simp add: round64_def Let_def)

lemma round64_eval:
  assumes "0 < x" and "2 powi k \<le> x" and "x < 2 powi (k + 1)"
  shows "round64 x =
     (let u = 2 powi (max k (- 1022) - 52);
          r = of_int (round_half_even (x / u)) * u
      in if 2 ^ 1024 \<le> r then PInf else Fin r)"
  using assms by (simp add: round64_def floor_log2 [OF assms] Let_def)

lemma round64_pow2:
  assumes "- 1074 \<le> k" and "k \<le> 1023"
  shows "round64 (2 powi k) = Fin (2 powi k)"
proof -
  let ?x = "2 powi k :: real"
  define e where "e = max k (- 1022)"
  define j where "j = k - (e - 52)"
  have j: "0 \<le> j" using assms by (simp add: j_def e_def)
  have pos: "0 < ?x" by simp
  have up: "?x < 2 powi (k + 1)"
    by (simp add: power_int_add)
  have "?x / 2 powi (e - 52) = 2 powi j"
    by (simp add: j_def power_int_diff)
  also have "\<dots> = of_int (2 ^ nat j)"
    using j by (simp add: power_int_def)
  finally have q: "?x / 2 powi (e - 52) = of_int (2 ^ nat j)" .
  have r: "of_int (round_half_even (?x / 2 powi (e - 52))) * 2 powi (e - 52) = ?x"
    unfolding q round_half_even_of_int unfolding q [symmetric] by simp
  have "?x < 2 powi 1024"
    using assms by (intro power_int_strict_increasing) simp_all
  then have small: "\<not> 2 ^ 1024 \<le> ?x" by simp
  show ?thesis
    unfolding round64_eval [OF pos order_refl up] e_def [symmetric] Let_def r
    using small by simp
qed

lemma round_half_even_bounds:
  assumes "of_int a \<le> q" and "q \<le> of_int b"
  shows "a \<le> round_half_even q \<and> round_half_even q \<le> b"
proof -
  have lo: "a \<le> \<lfloor>q\<rfloor>" using assms(1) by (simp add: le_floor_iff)
  have hi: "\<lfloor>q\<rfloor> \<le> b" using assms(2) by (simp add: floor_le_iff)
  have "\<lfloor>q\<rfloor> + 1 \<le> b" if "0 < q - of_int \<lfloor>q\<rfloor>"
  proof -
    from that have "of_int \<lfloor>q\<rfloor> < (of_int b :: real)" using assms(2) by linarith
    then show ?thesis by simp
  qed
  then show ?thesis
    using lo hi by (auto simp: round_half_even_def Let_def)
qed

lemma round64_between_1_2:
  assumes "1 \<le> x" and "x \<le> 2"
  shows "\<exists>r. round64 x = Fin r \<and> 1 \<le> r \<and> r \<le> 2"
proof (cases "x = 2")
  case True
  then show ?thesis using round64_pow2 [of 1] by simp
next
  case False
  with assms have x: "0 < x" "2 powi 0 \<le> x" "x < 2 powi (0 + 1)" by simp_all
  define n where "n = round_half_even (x / 2 powi (- 52))"
  have "of_int (2 ^ 52) \<le> x / 2 powi (- 52)" and "x / 2 powi (- 52) \<le> of_int (2 ^ 53)"
    using assms by (simp_all add: power_int_minus field_simps)
  then have n: "2 ^ 52 \<le> n" "n \<le> 2 ^ 53"
    using round_half_even_bounds [of "2 ^ 52" "x / 2 powi (- 52)" "2 ^ 53"] by (simp_all add: n_def)
  then have r: "1 \<le> of_int n * (2 powi (- 52) :: real)" "of_int n * (2 powi (- 52) :: real) \<le> 2"
    by (simp_all add: power_int_minus field_simps)
  have "round64 x = Fin (of_int n * 2 powi (- 52))"
    using round64_eval [OF x] r by (simp add: n_def Let_def)
  with r show ?thesis by blast
qed

text \<open>
  Roundings that are not exact: a tie that goes to the even significand, a number just
  below \<open>1\<close>, an overflow, an underflow; and the doubles nearest to \<open>0.1\<close>, to half of it and
  to three halves of it.
\<close>

lemma round64_tie_2_54: "round64 (2 ^ 54 + 2) = Fin (2 ^ 54)"
  using round64_eval [of "2 ^ 54 + 2" 54]
  by (simp add: round_half_even_def Let_def)







section \<open>Without rounding the two arithmetics agree\<close>

lemma fl_add_rnd_Fin: "fl_add_rnd Fin = fl_add"
proof (intro ext)
  fix x y show "fl_add_rnd Fin x y = fl_add x y"
    by (cases x; cases y) simp_all
qed

lemma fl_mul_rnd_Fin: "fl_mul_rnd Fin = fl_mul"
proof (intro ext)
  fix x y show "fl_mul_rnd Fin x y = fl_mul x y"
    by (cases x; cases y) simp_all
qed

lemma fl_div_rnd_Fin: "fl_div_rnd Fin = fl_div"
proof (intro ext)
  fix x y show "fl_div_rnd Fin x y = fl_div x y"
    by (cases x; cases y) simp_all
qed

lemma fl_sqrt_rnd_Fin: "fl_sqrt_rnd Fin = fl_sqrt"
proof (intro ext)
  fix x show "fl_sqrt_rnd Fin x = fl_sqrt x"
    by (cases x) simp_all
qed

lemma fl_sub_rnd_Fin: "fl_sub_rnd Fin = fl_sub"
  by (intro ext) (simp add: fl_sub_rnd_def fl_sub_def fl_add_rnd_Fin)

lemma fl_sq_rnd_Fin: "fl_sq_rnd Fin = fl_sq"
  by (intro ext) (simp add: fl_sq_rnd_def fl_sq_def fl_mul_rnd_Fin)

lemma np_sum_rnd_Fin: "np_sum_rnd Fin = np_sum"
  by (intro ext) (simp add: np_sum_rnd_def np_sum_def fl_add_rnd_Fin)

lemma np_mean_rnd_Fin: "np_mean_rnd Fin = np_mean"
  by (intro ext) (simp add: np_mean_rnd_def np_mean_def fl_div_rnd_Fin np_sum_rnd_Fin)

lemma np_std_rnd_Fin: "np_std_rnd Fin = np_std"
  by (intro ext)
     (simp add: np_std_rnd_def np_std_def fl_sqrt_rnd_Fin np_mean_rnd_Fin fl_sq_rnd_Fin
        fl_sub_rnd_Fin)

lemma normalize_rnd_Fin: "normalize_rnd Fin X = normalize X"
  by (simp add: normalize_rnd_def normalize_def np_mean0_rnd_def np_mean0_def np_std0_rnd_def
      np_std0_def np_mean_rnd_Fin np_std_rnd_Fin fl_sub_rnd_Fin fl_div_rnd_Fin)

lemma mean_squared_error_rnd_Fin: "mean_squared_error_rnd Fin yt yp = mean_squared_error yt yp"
  by (simp add: mean_squared_error_rnd_def mean_squared_error_def np_mean_rnd_Fin fl_sq_rnd_Fin
      fl_sub_rnd_Fin)

lemma r2_score_rnd_Fin: "r2_score_rnd Fin yt yp = r2_score yt yp"
  by (simp add: r2_score_rnd_def r2_score_def np_mean_rnd_Fin np_sum_rnd_Fin fl_sq_rnd_Fin
      fl_sub_rnd_Fin fl_div_rnd_Fin)

lemma np_dot_rnd_Fin: "np_dot_rnd Fin = np_dot"
  by (intro ext) (simp add: np_dot_rnd_def np_dot_def np_sum_rnd_Fin fl_mul_rnd_Fin)

lemma np_matmul_rnd_Fin: "np_matmul_rnd Fin = np_matmul"
  by (intro ext) (simp add: np_matmul_rnd_def np_matmul_def np_dot_rnd_Fin)

lemma np_matvec_rnd_Fin: "np_matvec_rnd Fin = np_matvec"
  by (intro ext) (simp add: np_matvec_rnd_def np_matvec_def np_dot_rnd_Fin)

lemma normal_equation_rnd_Fin: "normal_equation_rnd Fin li X y = normal_equation li X y"
  by (simp add: normal_equation_rnd_def normal_equation_def np_matmul_rnd_Fin np_matvec_rnd_Fin)

lemmas rnd_defs = fl_sub_rnd_def fl_sq_rnd_def np_sum_rnd_def np_mean_rnd_def np_std_rnd_def
  np_mean0_rnd_def np_std0_rnd_def normalize_rnd_def mean_squared_error_rnd_def r2_score_rnd_def
  np_dot_rnd_def np_matmul_rnd_def np_matvec_rnd_def normal_equation_rnd_def
  np_bc_def np_bc1_def ebind_def columns_def column_def ncols_def np_T_def embed_def Let_def

section \<open>Shapes, columns and the reductions along axis 0\<close>

lemma ncols_embed: "ncols (embed X) = ncols X"
  by (cases X) (simp_all add: ncols_def embed_def)

lemma length_embed: "length (embed X) = length X"
  by (simp add: embed_def)

lemma is_matrixD: "is_matrix X \<Longrightarrow> r \<in> set X \<Longrightarrow> length r = ncols X"
  by (simp add: is_matrix_def)

lemma is_matrix_nth: "is_matrix X \<Longrightarrow> i < length X \<Longrightarrow> length (X ! i) = ncols X"
  by (simp add: is_matrix_def)

lemma length_column: "length (column X j) = length X"
  by (simp add: column_def)

lemma length_columns: "length (columns X) = ncols X"
  by (simp add: columns_def)

lemma nth_columns: "j < ncols X \<Longrightarrow> columns X ! j = column X j"
  by (simp add: columns_def)


lemma column_embed:
  assumes "is_matrix X" and "j < ncols X"
  shows "column (embed X) j = map Fin (column X j)"
  using assms by (simp add: column_def embed_def is_matrix_def)

lemma columns_embed:
  assumes "is_matrix X"
  shows "columns (embed X) = map (map Fin) (columns X)"
  using assms by (simp add: columns_def ncols_embed column_embed)

lemma ncols_pos_nonempty: "0 < ncols X \<Longrightarrow> X \<noteq> []"
  by (auto simp: ncols_def)

lemma np_mean0_embed:
  assumes "is_matrix X"
  shows "np_mean0 (embed X) = map (\<lambda>c. Fin (arith_mean c)) (columns X)"
proof -
  have "np_mean (map Fin c) = Fin (arith_mean c)" if "c \<in> set (columns X)" for c
  proof -
    from that obtain j where "j < ncols X" and "c = column X j"
      by (auto simp: columns_def)
    then have "c \<noteq> []"
      using ncols_pos_nonempty [of X] length_column [of X j] by auto
    then show ?thesis by (rule np_mean_Fin)
  qed
  then show ?thesis
    by (simp add: np_mean0_def columns_embed [OF assms])
qed

lemma np_std0_embed:
  assumes "is_matrix X"
  shows "np_std0 (embed X) = map (\<lambda>c. Fin (pop_std c)) (columns X)"
proof -
  have "np_std (map Fin c) = Fin (pop_std c)" if "c \<in> set (columns X)" for c
  proof -
    from that obtain j where "j < ncols X" and "c = column X j"
      by (auto simp: columns_def)
    then have "c \<noteq> []"
      using ncols_pos_nonempty [of X] length_column [of X j] by auto
    then show ?thesis by (rule np_std_Fin)
  qed
  then show ?thesis
    by (simp add: np_std0_def columns_embed [OF assms])
qed

lemma np_bc_same: "ncols A = length v \<Longrightarrow> np_bc f A v = Inr (map (\<lambda>r. map2 f r v) A)"
  by (simp add: np_bc_def)

lemma ncols_map_rows:
  assumes "\<And>r. r \<in> set A \<Longrightarrow> length (g r) = length r"
  shows "ncols (map g A) = ncols A"
  using assms by (cases A) (simp_all add: ncols_def)

lemma normalize_same:
  assumes "is_matrix X"
  shows "normalize X = Inr (map (\<lambda>r. map2 fl_div (map2 fl_sub r (np_mean0 X)) (np_std0 X)) X,
                            np_mean0 X, np_std0 X)"
proof -
  have lm: "length (np_mean0 X) = ncols X" and ls: "length (np_std0 X) = ncols X"
    by (simp_all add: np_mean0_def np_std0_def length_columns)
  have "ncols (map (\<lambda>r. map2 fl_sub r (np_mean0 X)) X) = ncols X"
    by (rule ncols_map_rows) (simp add: lm is_matrixD [OF assms])
  then show ?thesis
    by (simp add: normalize_def Let_def ebind_def np_bc_same lm ls)
qed

section \<open>Facts about the mean and the standard deviation\<close>

lemma sum_list_shift_scale:
  fixes c :: "real list"
  shows "sum_list (map (\<lambda>x. (x - m) / s) c) = (sum_list c - real (length c) * m) / s"
proof -
  have "sum_list (map (\<lambda>x. (x - m) * inverse s) c) = sum_list (map (\<lambda>x. x - m) c) * inverse s"
    by (rule sum_list_mult_const)
  also have "sum_list (map (\<lambda>x. x - m) c) = sum_list c - real (length c) * m"
    by (simp add: sum_list_subtractf sum_list_triv)
  finally show ?thesis by (simp add: divide_inverse)
qed

lemma arith_mean_standardised:
  "arith_mean (map (\<lambda>x. (x - arith_mean c) / s) c) = 0"
  by (cases "c = []") (simp_all add: arith_mean_def sum_list_shift_scale)

lemma pop_var_nonneg: "0 \<le> sum_list (map (\<lambda>x. (x - m)\<^sup>2) c) / real (length c)"
  by (intro divide_nonneg_nonneg sum_list_nonneg) auto

lemma pop_std_sq: "(pop_std c)\<^sup>2 = sum_list (map (\<lambda>x. (x - arith_mean c)\<^sup>2) c) / real (length c)"
  unfolding pop_std_def by (rule real_sqrt_pow2) (rule pop_var_nonneg)

lemma pop_std_standardised:
  assumes "pop_std c \<noteq> 0"
  shows "pop_std (map (\<lambda>x. (x - arith_mean c) / pop_std c) c) = 1"
proof -
  let ?s = "pop_std c" and ?m = "arith_mean c"
  let ?z = "map (\<lambda>x. (x - ?m) / ?s) c"
  have "sum_list (map (\<lambda>x. (x - arith_mean ?z)\<^sup>2) ?z)
      = sum_list (map (\<lambda>x. (x - ?m)\<^sup>2 * inverse (?s\<^sup>2)) c)"
    by (simp add: arith_mean_standardised comp_def power_divide)
       (simp add: divide_inverse)
  also have "\<dots> = sum_list (map (\<lambda>x. (x - ?m)\<^sup>2) c) * inverse (?s\<^sup>2)"
    by (rule sum_list_mult_const)
  finally have "sum_list (map (\<lambda>x. (x - arith_mean ?z)\<^sup>2) ?z) / real (length ?z)
      = ?s\<^sup>2 * inverse (?s\<^sup>2)"
    by (simp add: pop_std_sq divide_inverse mult_ac)
  also have "\<dots> = 1" using assms by simp
  finally show ?thesis by (simp add: pop_std_def)
qed

section \<open>Normalization\<close>

lemma is_matrix_embed: "is_matrix X \<Longrightarrow> is_matrix (embed X)"
  by (simp add: is_matrix_def ncols_embed) (simp add: embed_def)

lemma normalize_embed:
  assumes "is_matrix X"
  shows "normalize (embed X) =
     Inr (map (\<lambda>r. map2 fl_div (map2 fl_sub r (map (\<lambda>c. Fin (arith_mean c)) (columns X)))
                                 (map (\<lambda>c. Fin (pop_std c)) (columns X))) (embed X),
          map (\<lambda>c. Fin (arith_mean c)) (columns X),
          map (\<lambda>c. Fin (pop_std c)) (columns X))"
  using normalize_same [OF is_matrix_embed [OF assms]]
  by (simp add: np_mean0_embed [OF assms] np_std0_embed [OF assms])

lemma normalize_embed_entries:
  assumes "is_matrix X"
  shows "\<exists>Xn mean std. normalize (embed X) = Inr (Xn, mean, std)
     \<and> length mean = ncols X \<and> length std = ncols X \<and> length Xn = length X
     \<and> (\<forall>j<ncols X. mean ! j = Fin (arith_mean (column X j))
                      \<and> std ! j = Fin (pop_std (column X j)))
     \<and> (\<forall>i<length X. length (Xn ! i) = ncols X
            \<and> (\<forall>j<ncols X. Xn ! i ! j = fl_div (fl_sub (Fin (X ! i ! j)) (mean ! j)) (std ! j)))"
proof -
  let ?mean = "map (\<lambda>c. Fin (arith_mean c)) (columns X)"
  let ?std = "map (\<lambda>c. Fin (pop_std c)) (columns X)"
  let ?Xn = "map (\<lambda>r. map2 fl_div (map2 fl_sub r ?mean) ?std) (embed X)"
  have eq: "normalize (embed X) = Inr (?Xn, ?mean, ?std)"
    by (rule normalize_embed [OF assms])
  have stats: "\<forall>j<ncols X. ?mean ! j = Fin (arith_mean (column X j))
                      \<and> ?std ! j = Fin (pop_std (column X j))"
    by (simp add: length_columns nth_columns)
  have rows: "length (?Xn ! i) = ncols X
      \<and> (\<forall>j<ncols X. ?Xn ! i ! j = fl_div (fl_sub (Fin (X ! i ! j)) (?mean ! j)) (?std ! j))"
    if i: "i < length X" for i
  proof -
    have len: "length (X ! i) = ncols X"
      using assms i by (rule is_matrix_nth)
    have row: "?Xn ! i = map2 fl_div (map2 fl_sub (map Fin (X ! i)) ?mean) ?std"
      using i by (simp add: embed_def)
    show ?thesis
      unfolding row using len by (simp add: length_columns)
  qed
  have lens: "length ?mean = ncols X" "length ?std = ncols X" "length ?Xn = length X"
    by (simp_all add: length_columns length_embed)
  from rows have rows': "\<forall>i<length X. length (?Xn ! i) = ncols X
      \<and> (\<forall>j<ncols X. ?Xn ! i ! j = fl_div (fl_sub (Fin (X ! i ! j)) (?mean ! j)) (?std ! j))"
    by blast
  show ?thesis
    by (rule exI [of _ ?Xn], rule exI [of _ ?mean], rule exI [of _ ?std])
       (intro conjI eq lens stats rows')
qed




section \<open>Normalization of columns with nonzero variance\<close>

lemma map2_sub_Fin: "map2 fl_sub (map Fin r) (map Fin ms) = map Fin (map2 (-) r ms)"
  by (auto simp: zip_map_map fl_sub_def)

lemma map2_div_Fin:
  assumes "0 \<notin> set ss"
  shows "map2 fl_div (map Fin d) (map Fin ss) = map Fin (map2 (/) d ss)"
proof -
  have "s \<noteq> 0" if "(x, s) \<in> set (zip d ss)" for x s
    using that assms by (auto dest: set_zip_rightD)
  then show ?thesis
    by (auto simp: zip_map_map)
qed

lemma nonzero_stds:
  assumes "\<forall>j<ncols X. pop_std (column X j) \<noteq> 0"
  shows "0 \<notin> set (map pop_std (columns X))"
  using assms by (auto simp: columns_def)

lemma rows_Fin:
  assumes "0 \<notin> set ss"
  shows "map (\<lambda>r. map2 fl_div (map2 fl_sub r (map Fin ms)) (map Fin ss)) (embed X)
       = embed (map (\<lambda>r. map2 (/) (map2 (-) r ms) ss) X)"
proof -
  have "map2 fl_div (map2 fl_sub (map Fin r) (map Fin ms)) (map Fin ss)
      = map Fin (map2 (/) (map2 (-) r ms) ss)" for r
    unfolding map2_sub_Fin by (rule map2_div_Fin [OF assms])
  then show ?thesis
    by (simp only: embed_def map_map comp_def)
qed

lemma normalize_embed_standardise:
  assumes "is_matrix X" and "\<forall>j<ncols X. pop_std (column X j) \<noteq> 0"
  shows "normalize (embed X) =
     Inr (embed (standardise X), map (\<lambda>c. Fin (arith_mean c)) (columns X),
          map (\<lambda>c. Fin (pop_std c)) (columns X))"
proof -
  have m: "map (\<lambda>c. Fin (arith_mean c)) (columns X) = map Fin (map arith_mean (columns X))"
    and s: "map (\<lambda>c. Fin (pop_std c)) (columns X) = map Fin (map pop_std (columns X))"
    by simp_all
  show ?thesis
    unfolding normalize_embed [OF assms(1)] m s rows_Fin [OF nonzero_stds [OF assms(2)]]
      standardise_def ..
qed

lemma ncols_standardise:
  assumes "is_matrix X"
  shows "ncols (standardise X) = ncols X"
  unfolding standardise_def
  by (rule ncols_map_rows) (simp add: length_columns is_matrixD [OF assms])

lemma is_matrix_standardise:
  assumes "is_matrix X"
  shows "is_matrix (standardise X)"
proof -
  have "length r = ncols X" if "r \<in> set (standardise X)" for r
    using that by (auto simp: standardise_def length_columns is_matrixD [OF assms])
  then show ?thesis
    by (simp add: is_matrix_def ncols_standardise [OF assms])
qed

lemma column_standardise:
  assumes "is_matrix X" and "j < ncols X"
  shows "column (standardise X) j
       = map (\<lambda>x. (x - arith_mean (column X j)) / pop_std (column X j)) (column X j)"
proof -
  have "map2 (/) (map2 (-) r (map arith_mean (columns X))) (map pop_std (columns X)) ! j
      = (r ! j - arith_mean (column X j)) / pop_std (column X j)" if "r \<in> set X" for r
    using that assms by (simp add: is_matrixD length_columns nth_columns)
  then show ?thesis
    by (simp add: column_def standardise_def)
qed

lemma columns_standardise_stats:
  assumes "is_matrix X" and "\<forall>j<ncols X. pop_std (column X j) \<noteq> 0"
  shows "map (\<lambda>c. Fin (arith_mean c)) (columns (standardise X)) = replicate (ncols X) (Fin 0)"
    and "map (\<lambda>c. Fin (pop_std c)) (columns (standardise X)) = replicate (ncols X) (Fin 1)"
proof -
  have "arith_mean (column (standardise X) j) = 0 \<and> pop_std (column (standardise X) j) = 1"
    if "j < ncols X" for j
    using that assms
    by (simp add: column_standardise arith_mean_standardised pop_std_standardised)
  then show "map (\<lambda>c. Fin (arith_mean c)) (columns (standardise X)) = replicate (ncols X) (Fin 0)"
    and "map (\<lambda>c. Fin (pop_std c)) (columns (standardise X)) = replicate (ncols X) (Fin 1)"
    by (auto intro!: nth_equalityI simp: columns_def ncols_standardise [OF assms(1)])
qed

lemma standardise_column_stats:
  assumes "is_matrix X" and "j < ncols X" and "pop_std (column X j) \<noteq> 0"
  shows "arith_mean (column (standardise X) j) = 0 \<and> pop_std (column (standardise X) j) = 1"
  using assms by (simp add: column_standardise arith_mean_standardised pop_std_standardised)

text \<open>
  Claim C9, as amended. In exact arithmetic, for every feature matrix \<open>X\<close> (of finite
  numbers) in which every column has nonzero variance, every column of the normalized
  matrix returned by \<open>normalize X\<close> has the arithmetic mean \<open>0\<close> and the population standard
  deviation \<open>1\<close> exactly; \<open>np.mean\<close> and \<open>np.std\<close> along axis 0 return these values.
\<close>

theorem normalized_columns_mean_0_std_1:
  assumes "is_matrix X" and "\<forall>j<ncols X. pop_std (column X j) \<noteq> 0"
  shows "\<exists>Z mean std. normalize (embed X) = Inr (embed Z, mean, std)
     \<and> is_matrix Z \<and> length Z = length X \<and> ncols Z = ncols X
     \<and> (\<forall>j<ncols X. arith_mean (column Z j) = 0 \<and> pop_std (column Z j) = 1)
     \<and> np_mean0 (embed Z) = replicate (ncols X) (Fin 0)
     \<and> np_std0 (embed Z) = replicate (ncols X) (Fin 1)"
proof -
  let ?Z = "standardise X"
  have eq: "normalize (embed X) = Inr (embed ?Z, map (\<lambda>c. Fin (arith_mean c)) (columns X),
      map (\<lambda>c. Fin (pop_std c)) (columns X))"
    by (rule normalize_embed_standardise [OF assms])
  have m: "is_matrix ?Z"
    by (rule is_matrix_standardise [OF assms(1)])
  have n: "ncols ?Z = ncols X"
    by (rule ncols_standardise [OF assms(1)])
  have l: "length ?Z = length X"
    by (simp add: standardise_def)
  have st: "\<forall>j<ncols X. arith_mean (column ?Z j) = 0 \<and> pop_std (column ?Z j) = 1"
    using assms by (simp add: standardise_column_stats)
  have np: "np_mean0 (embed ?Z) = replicate (ncols X) (Fin 0)"
    "np_std0 (embed ?Z) = replicate (ncols X) (Fin 1)"
    using assms by (simp_all add: np_mean0_embed np_std0_embed m columns_standardise_stats)
  show ?thesis
    by (rule exI [of _ ?Z], intro exI conjI; (rule eq m n l st np)?)
qed

theorem normalized_columns_mean_0_std_1_witness:
  "is_matrix [[1, 5], [3, 9 :: real]]
   \<and> pop_std (column [[1, 5], [3, 9]] 0) = 1 \<and> pop_std (column [[1, 5], [3, 9]] 1) = 2
   \<and> normalize (embed [[1, 5], [3, 9]])
       = Inr (embed [[- 1, - 1], [1, 1]], [Fin 2, Fin 7], [Fin 1, Fin 2])
   \<and> arith_mean (column [[- 1, - 1], [1, 1]] 0) = 0
   \<and> pop_std (column [[- 1, - 1], [1, 1]] 0) = 1
   \<and> arith_mean (column [[- 1, - 1], [1, 1]] 1) = 0
   \<and> pop_std (column [[- 1, - 1], [1, 1]] 1) = 1"
proof -
  have m: "is_matrix [[1, 5], [3, 9 :: real]]"
    by (simp add: is_matrix_def ncols_def)
  have s: "pop_std (column [[1, 5], [3, 9]] 0) = 1" "pop_std (column [[1, 5], [3, 9]] 1) = 2"
    by (simp_all add: column_def pop_std_def arith_mean_def)
  have nz: "\<forall>j<ncols [[1, 5], [3, 9 :: real]]. pop_std (column [[1, 5], [3, 9]] j) \<noteq> 0"
    using s by (auto simp: ncols_def less_Suc_eq)
  have e: "normalize (embed [[1, 5], [3, 9]])
       = Inr (embed [[- 1, - 1], [1, 1]], [Fin 2, Fin 7], [Fin 1, Fin 2])"
    unfolding normalize_embed [OF m]
    by (simp add: ncols_def columns_def column_def embed_def arith_mean_def pop_std_def
        upt_rec fl_sub_def)
  have z: "arith_mean (column [[- 1, - 1], [1, 1]] 0) = 0"
    "pop_std (column [[- 1, - 1], [1, 1]] 0) = 1"
    "arith_mean (column [[- 1, - 1], [1, 1]] 1) = 0"
    "pop_std (column [[- 1, - 1], [1, 1]] 1) = 1"
    by (simp_all add: column_def pop_std_def arith_mean_def)
  show ?thesis
    using normalized_columns_mean_0_std_1 [OF m nz] m s e z by simp
qed

text \<open>
  Claim C9 as stated fails in double precision, where no tolerance holds. The column
  \<open>[2 ^ 53, 2 ^ 53 + 2]\<close> has the population standard deviation \<open>1\<close>. The sum of its two entries
  rounds to \<open>2 ^ 54\<close>, so the mean returned is \<open>2 ^ 53\<close>, the deviations are \<open>0\<close> and \<open>2\<close>, and the
  normalized column is \<open>[0, z]\<close> with \<open>z \<ge> 1\<close>: its mean is at least \<open>1 / 2\<close>, not about \<open>0\<close>.
\<close>

theorem normalize_large_values_not_standardised:
  "is_matrix [[2 ^ 53], [2 ^ 53 + 2 :: real]]
   \<and> pop_std (column [[2 ^ 53], [2 ^ 53 + 2]] 0) = 1
   \<and> (\<exists>s z. normalize_rnd round64 (embed [[2 ^ 53], [2 ^ 53 + 2]])
                = Inr ([[Fin 0], [Fin z]], [Fin (2 ^ 53)], [Fin s])
            \<and> 1 \<le> z \<and> 1 / 2 \<le> arith_mean (column [[0], [z]] 0))"
proof -
  have m: "is_matrix [[2 ^ 53], [2 ^ 53 + 2 :: real]]"
    by (simp add: is_matrix_def ncols_def)
  have p: "pop_std (column [[2 ^ 53], [2 ^ 53 + 2]] 0) = 1"
    by (simp add: column_def pop_std_def arith_mean_def)
  have "1 \<le> sqrt 2" "sqrt 2 \<le> 2"
    by (simp_all add: real_le_lsqrt)
  then obtain s where s: "round64 (sqrt 2) = Fin s" "1 \<le> s" "s \<le> 2"
    using round64_between_1_2 by blast
  then have "1 \<le> 2 / s" "2 / s \<le> 2"
    by (simp_all add: field_simps)
  then obtain z where z: "round64 (2 / s) = Fin z" "1 \<le> z" "z \<le> 2"
    using round64_between_1_2 by blast
  have sn: "s \<noteq> 0" using s(2) by simp
  have e: "normalize_rnd round64 (embed [[2 ^ 53], [2 ^ 53 + 2]])
      = Inr ([[Fin 0], [Fin z]], [Fin (2 ^ 53)], [Fin s])"
    using round64_0 round64_pow2 [of 53] round64_pow2 [of 54] round64_pow2 [of 1]
      round64_pow2 [of 2] round64_tie_2_54 s(1) z(1) sn
    by (simp add: rnd_defs upt_rec)
  have a: "1 / 2 \<le> arith_mean (column [[0], [z]] 0)"
    using z(2) by (simp add: column_def arith_mean_def)
  from m p e z(2) a show ?thesis by blast
qed

text \<open>
  Claim C10. Normalization is undone by the statistics it returns: for every feature
  matrix \<open>X\<close> (of finite numbers) in which every column has nonzero variance, if
  \<open>normalize X = (Xn, mean, std)\<close> then \<open>Xn ! i ! j * std ! j + mean ! j = X ! i ! j\<close> for every
  row \<open>i\<close> and column \<open>j\<close>.
\<close>

theorem normalize_invertible:
  assumes "is_matrix X" and "\<forall>j<ncols X. pop_std (column X j) \<noteq> 0"
  shows "\<exists>Xn mean std. normalize (embed X) = Inr (Xn, mean, std)
     \<and> (\<forall>i<length X. \<forall>j<ncols X.
            fl_add (fl_mul (Xn ! i ! j) (std ! j)) (mean ! j) = Fin (X ! i ! j))"
proof -
  from normalize_embed_entries [OF assms(1)] obtain Xn mean std where
    eq: "normalize (embed X) = Inr (Xn, mean, std)" and
    stats: "\<forall>j<ncols X. mean ! j = Fin (arith_mean (column X j))
                      \<and> std ! j = Fin (pop_std (column X j))" and
    rows: "\<forall>i<length X. length (Xn ! i) = ncols X
            \<and> (\<forall>j<ncols X. Xn ! i ! j = fl_div (fl_sub (Fin (X ! i ! j)) (mean ! j)) (std ! j))"
    by blast
  have "fl_add (fl_mul (Xn ! i ! j) (std ! j)) (mean ! j) = Fin (X ! i ! j)"
    if "i < length X" and "j < ncols X" for i j
    using that stats rows assms(2) by (simp add: fl_sub_def)
  with eq show ?thesis by blast
qed

theorem normalize_invertible_witness:
  "is_matrix [[1, 5], [3, 9 :: real]]
   \<and> pop_std (column [[1, 5], [3, 9]] 0) = 1 \<and> pop_std (column [[1, 5], [3, 9]] 1) = 2
   \<and> normalize (embed [[1, 5], [3, 9]])
       = Inr ([[Fin (- 1), Fin (- 1)], [Fin 1, Fin 1]], [Fin 2, Fin 7], [Fin 1, Fin 2])
   \<and> fl_add (fl_mul (Fin (- 1)) (Fin 2)) (Fin 7) = Fin 5"
proof -
  have m: "is_matrix [[1, 5], [3, 9 :: real]]"
    by (simp add: is_matrix_def ncols_def)
  have s: "pop_std (column [[1, 5], [3, 9]] 0) = 1" "pop_std (column [[1, 5], [3, 9]] 1) = 2"
    by (simp_all add: column_def pop_std_def arith_mean_def)
  have nz: "\<forall>j<ncols [[1, 5], [3, 9 :: real]]. pop_std (column [[1, 5], [3, 9]] j) \<noteq> 0"
    using s by (auto simp: ncols_def less_Suc_eq)
  have e: "normalize (embed [[1, 5], [3, 9]])
       = Inr ([[Fin (- 1), Fin (- 1)], [Fin 1, Fin 1]], [Fin 2, Fin 7], [Fin 1, Fin 2])"
    unfolding normalize_embed [OF m]
    by (simp add: ncols_def columns_def column_def embed_def arith_mean_def pop_std_def
        upt_rec fl_sub_def)
  show ?thesis
    using normalize_invertible [OF m nz] m s e by simp
qed

section \<open>Columns of zero variance\<close>

lemma normalize_rnd_same:
  assumes "is_matrix X"
  shows "normalize_rnd rnd X =
     Inr (map (\<lambda>r. map2 (fl_div_rnd rnd) (map2 (fl_sub_rnd rnd) r (np_mean0_rnd rnd X))
                          (np_std0_rnd rnd X)) X,
          np_mean0_rnd rnd X, np_std0_rnd rnd X)"
proof -
  have lm: "length (np_mean0_rnd rnd X) = ncols X" and ls: "length (np_std0_rnd rnd X) = ncols X"
    by (simp_all add: np_mean0_rnd_def np_std0_rnd_def length_columns)
  have "ncols (map (\<lambda>r. map2 (fl_sub_rnd rnd) r (np_mean0_rnd rnd X)) X) = ncols X"
    by (rule ncols_map_rows) (simp add: lm is_matrixD [OF assms])
  then show ?thesis
    by (simp add: normalize_rnd_def Let_def ebind_def np_bc_same lm ls)
qed

text \<open>
  Claim C6, as amended. The claim says that \<open>normalize\<close> raises an error when some column
  of \<open>X\<close> has zero variance. The function has no such check and NumPy's division does not
  raise. For every feature matrix \<open>X\<close> with a constant column, whatever its values and
  whatever the rounding (double precision is \<open>rnd = round64\<close>, exact arithmetic is
  \<open>rnd = Fin\<close>), \<open>normalize\<close> raises no error: it returns a triple \<open>(Xn, mean, std)\<close>, \<open>Xn\<close>
  of the shape of \<open>X\<close> and \<open>mean\<close> and \<open>std\<close> with one entry for every column. What the
  entries of the constant column become depends on the rounding and is not stated.
\<close>

theorem normalize_constant_column_returns:
  assumes "is_matrix X" and "j < ncols X" and "\<forall>i<length X. X ! i ! j = c"
  shows "\<exists>Xn mean std. normalize_rnd rnd X = Inr (Xn, mean, std)
     \<and> length Xn = length X \<and> (\<forall>i<length X. length (Xn ! i) = ncols X)
     \<and> length mean = ncols X \<and> length std = ncols X"
proof -
  let ?mean = "np_mean0_rnd rnd X" and ?std = "np_std0_rnd rnd X"
  let ?Xn = "map (\<lambda>r. map2 (fl_div_rnd rnd) (map2 (fl_sub_rnd rnd) r ?mean) ?std) X"
  have eq: "normalize_rnd rnd X = Inr (?Xn, ?mean, ?std)"
    by (rule normalize_rnd_same [OF assms(1)])
  have lm: "length ?mean = ncols X" and ls: "length ?std = ncols X"
    by (simp_all add: np_mean0_rnd_def np_std0_rnd_def length_columns)
  have lx: "length ?Xn = length X" by simp
  have rows: "\<forall>i<length X. length (?Xn ! i) = ncols X"
    using assms(1) by (simp add: lm ls is_matrix_nth)
  show ?thesis
    by (rule exI [of _ ?Xn], rule exI [of _ ?mean], rule exI [of _ ?std])
       (intro conjI eq lx rows lm ls)
qed

theorem normalize_constant_column_returns_witness:
  "is_matrix (embed [[1, 5], [3, 5]]) \<and> 1 < ncols (embed [[1, 5], [3, 5]])
   \<and> embed [[1, 5], [3, 5]] ! 0 ! 1 = Fin 5 \<and> embed [[1, 5], [3, 5]] ! 1 ! 1 = Fin 5
   \<and> normalize_rnd round64 (embed [[1, 5], [3, 5]])
       = Inr ([[Fin (- 1), NaN], [Fin 1, NaN]], [Fin 2, Fin 5], [Fin 1, Fin 0])"
proof -
  let ?X = "embed [[1, 5], [3, 5]]"
  have m: "is_matrix ?X" and c: "1 < ncols ?X"
    by (simp_all add: is_matrix_def ncols_def embed_def)
  have k: "\<forall>i<length ?X. ?X ! i ! 1 = Fin 5"
    by (auto simp: embed_def less_Suc_eq)
  have r3: "round64 3 = Fin 3"
    using round64_eval [of 3 1] by (simp add: round_half_even_def Let_def)
  have r5: "round64 5 = Fin 5"
    using round64_eval [of 5 2] by (simp add: round_half_even_def Let_def)
  have r10: "round64 10 = Fin 10"
    using round64_eval [of 10 3] by (simp add: round_half_even_def Let_def)
  have e: "normalize_rnd round64 ?X
      = Inr ([[Fin (- 1), NaN], [Fin 1, NaN]], [Fin 2, Fin 5], [Fin 1, Fin 0])"
    using round64_0 round64_pow2 [of 0] round64_pow2 [of 1] round64_pow2 [of 2] r3 r5 r10
    by (simp add: rnd_defs round64_minus upt_rec)
  show ?thesis
    using normalize_constant_column_returns [OF m c k, of round64] m c e
    by (simp add: embed_def)
qed

text \<open>
  Claim C6 as stated fails: on the matrix with rows \<open>[1, 5]\<close> and \<open>[3, 5]\<close>, whose second
  column is constant, \<open>normalize\<close> returns a triple and raises nothing.
\<close>

theorem normalize_zero_variance_returns:
  "pop_std (column [[1, 5], [3, 5]] 1) = 0
   \<and> normalize (embed [[1, 5], [3, 5]])
       = Inr ([[Fin (- 1), NaN], [Fin 1, NaN]], [Fin 2, Fin 5], [Fin 1, Fin 0])"
proof -
  have m: "is_matrix [[1, 5], [3, 5 :: real]]"
    by (simp add: is_matrix_def ncols_def)
  have "normalize (embed [[1, 5], [3, 5]])
       = Inr ([[Fin (- 1), NaN], [Fin 1, NaN]], [Fin 2, Fin 5], [Fin 1, Fin 0])"
    unfolding normalize_embed [OF m]
    by (simp add: ncols_def columns_def column_def embed_def arith_mean_def pop_std_def
        upt_rec fl_sub_def)
  then show ?thesis
    by (simp add: column_def pop_std_def arith_mean_def)
qed

section \<open>The evaluator\<close>


















section \<open>The predictor\<close>

lemma ncols_single: "ncols [r] = length r"
  by (simp add: ncols_def)

text \<open>
  Claim C7, as amended. The training run has \<open>n\<close> features: \<open>mean\<close> and \<open>std\<close> have \<open>n\<close>
  entries and \<open>theta\<close> has \<open>n + 1\<close>. The prediction cell has no check of its own; a new row
  of \<open>m\<close> features is rejected by NumPy's shape checks, which raise \<open>ValueError\<close>, the
  dimension-mismatch failure of this program. They reject every row with \<open>m \<noteq> n\<close> features
  except a row of one feature.
\<close>

theorem predictor_rejects_wrong_feature_count:
  assumes "length mean = n" and "length std = n" and "length theta = n + 1"
    and "length row = m" and "m \<noteq> n" and "m \<noteq> 1"
  shows "predicted_price [row] mean std theta = Inl ValueError"
proof (cases "n = 1")
  case False
  with assms have "np_bc fl_sub [row] mean = Inl ValueError"
    by (simp add: np_bc_def ncols_single)
  then show ?thesis
    by (simp add: predicted_price_def ebind_def)
next
  case True
  define D where "D = map (\<lambda>x. fl_sub x (mean ! 0)) row"
  define Q where "Q = map (\<lambda>x. fl_div x (std ! 0)) D"
  have d: "np_bc fl_sub [row] mean = Inr [D]"
    using assms True by (simp add: np_bc_def ncols_single D_def)
  have q: "np_bc fl_div [D] std = Inr [Q]"
    using assms True by (simp add: np_bc_def ncols_single D_def Q_def)
  have b: "add_bias [Q] = Inr [Fin 1 # Q]"
    by (simp add: add_bias_eq)
  have v: "np_matvec [Fin 1 # Q] theta = Inl ValueError"
    using assms True by (simp add: np_matvec_def ncols_single D_def Q_def)
  show ?thesis
    by (simp add: predicted_price_def ebind_def d q b v)
qed

theorem predictor_rejects_wrong_feature_count_witness:
  "length [Fin 1, Fin 2] = (2::nat) \<and> length [Fin 1, Fin 1] = (2::nat)
   \<and> length [Fin 0, Fin 1, Fin 1] = (2::nat) + 1 \<and> length [Fin 1, Fin 2, Fin 3] = (3::nat)
   \<and> (3::nat) \<noteq> 2 \<and> (3::nat) \<noteq> 1
   \<and> predicted_price [[Fin 1, Fin 2, Fin 3]] [Fin 1, Fin 2] [Fin 1, Fin 1] [Fin 0, Fin 1, Fin 1]
       = Inl ValueError"
  using predictor_rejects_wrong_feature_count
    [of "[Fin 1, Fin 2]" 2 "[Fin 1, Fin 1]" "[Fin 0, Fin 1, Fin 1]" "[Fin 1, Fin 2, Fin 3]" 3]
  by simp

text \<open>
  Claim C7 as stated fails for a row of one feature: broadcasting stretches it over the
  \<open>n\<close> columns of \<open>mean\<close> and \<open>std\<close>, and a prediction is returned. Here \<open>n = 2\<close>, and
  \<open>([[5]] - [1, 2]) / [1, 1] = [[4, 3]]\<close>, so the prediction is \<open>0 + 4 + 3\<close>.
\<close>

theorem predictor_broadcasts_single_feature:
  "length [Fin 5] \<noteq> length [Fin 1, Fin 2]
   \<and> predicted_price [[Fin 5]] [Fin 1, Fin 2] [Fin 1, Fin 1] [Fin 0, Fin 1, Fin 1] = Inr [Fin 7]"
  by (simp add: predicted_price_def np_bc_def ncols_def ebind_def add_bias_eq np_matvec_def
      np_dot_def np_sum_def fl_sub_def)

section \<open>The normal equation\<close>
























end
